theory Spec2Isabelle
  imports Complex_Main
begin

section \<open>Values on the wire\<close>

text \<open>
  The client of \<^verbatim>\<open>src/src/client.ts\<close> talks JSON over one WebSocket. The text syntax
  of JSON belongs to the host (\<^verbatim>\<open>JSON.stringify\<close>, \<^verbatim>\<open>JSON.parse\<close>), not to this
  repository, so a frame is modelled by the JSON tree it denotes. Numbers are integers
  here: the client only ever compares the message type, an enum code, with a number.
  A JavaScript value that may be \<^verbatim>\<open>undefined\<close> is a \<open>json option\<close>, \<open>None\<close> being
  \<^verbatim>\<open>undefined\<close>.
\<close>

datatype json =
    JNull
  | JBool bool
  | JNum int
  | JStr string
  | JArr "json list"
  | JObj "(string \<times> json) list"

type_synonym jsvalue = "json option"

text \<open>
  An inbound frame, \<^verbatim>\<open>event.data\<close>, is given by what \<^verbatim>\<open>JSON.parse\<close> makes of it:
  \<open>None\<close> when \<^verbatim>\<open>JSON.parse\<close> throws a SyntaxError, \<open>Some j\<close> when it returns \<open>j\<close>.
  A frame the client sends is the tree its text denotes, so parsing a sent frame gives
  the tree back.
\<close>

type_synonym MessageEvent = "json option"

definition JSON_parse :: "json \<Rightarrow> MessageEvent" where
  "JSON_parse text = Some text"

text \<open>
  \<^verbatim>\<open>JSON.stringify\<close> of an object literal: the properties in the order written, those
  whose value is \<^verbatim>\<open>undefined\<close> left out.
\<close>

fun defined_properties :: "(string \<times> jsvalue) list \<Rightarrow> (string \<times> json) list" where
  "defined_properties [] = []"
| "defined_properties ((k, None) # kvs) = defined_properties kvs"
| "defined_properties ((k, Some v) # kvs) = (k, v) # defined_properties kvs"

definition JSON_stringify :: "(string \<times> jsvalue) list \<Rightarrow> json" where
  "JSON_stringify kvs = JObj (defined_properties kvs)"

text \<open>
  The property read \<^verbatim>\<open>data.k\<close> on a parsed value other than \<^verbatim>\<open>null\<close>, for the names
  the client reads (\<^verbatim>\<open>type\<close>, \<^verbatim>\<open>data\<close>, \<^verbatim>\<open>route\<close>, \<^verbatim>\<open>id\<close>, \<^verbatim>\<open>uuid\<close>): an object
  gives the property (the last one, should the text repeat a key), every other value
  gives \<^verbatim>\<open>undefined\<close>. Reading a property of \<^verbatim>\<open>null\<close> throws a TypeError; that case
  is a branch of each function that reads.
\<close>

fun field :: "json \<Rightarrow> string \<Rightarrow> jsvalue" where
  "field (JObj kvs) k = map_of (rev kvs) k"
| "field _ k = None"

text \<open>JavaScript truthiness, and \<^verbatim>\<open>a || b\<close>.\<close>

fun truthy :: "json \<Rightarrow> bool" where
  "truthy JNull = False"
| "truthy (JBool b) = b"
| "truthy (JNum n) = (n \<noteq> 0)"
| "truthy (JStr s) = (s \<noteq> [])"
| "truthy (JArr xs) = True"
| "truthy (JObj kvs) = True"

fun or_else :: "jsvalue \<Rightarrow> json \<Rightarrow> json" where
  "or_else None d = d"
| "or_else (Some v) d = (if truthy v then v else d)"

section \<open>Message payloads (types.ts)\<close>

datatype Paylods =
    success
  | verification
  | request
  | response
  | error
  | ping
  | information
  | function_call

text \<open>The number of each member of the enum, which is what goes on the wire.\<close>

fun code :: "Paylods \<Rightarrow> int" where
  "code Paylods.success = 0"
| "code Paylods.verification = 1"
| "code Paylods.request = 2"
| "code Paylods.response = 3"
| "code Paylods.error = 4"
| "code Paylods.ping = 5"
| "code Paylods.information = 6"
| "code Paylods.function_call = 7"

text \<open>
  The parameter \<^verbatim>\<open>msg\<close> of the constructor of \<^verbatim>\<open>MessagePayload\<close>. The optional
  properties are typed \<^verbatim>\<open>string\<close> and the like, but the client fills them from
  unchecked inbound frames (\<^verbatim>\<open>destination: data.id\<close>), so each holds any value.
\<close>

record msg =
  msg_id :: jsvalue
  msg_type :: Paylods
  msg_route :: jsvalue
  msg_traceback :: jsvalue
  msg_data :: jsvalue
  msg_uuid :: jsvalue
  msg_destination :: jsvalue
  msg_pseudo_object :: jsvalue

text \<open>An object literal that sets only \<^verbatim>\<open>type\<close>; the others are added by update.\<close>

definition only_type :: "Paylods \<Rightarrow> msg" where
  "only_type t =
     \<lparr>msg_id = None, msg_type = t, msg_route = None, msg_traceback = None,
      msg_data = None, msg_uuid = None, msg_destination = None,
      msg_pseudo_object = None\<rparr>"

text \<open>The fields of an instance of \<^verbatim>\<open>MessagePayload\<close>.\<close>

record MessagePayload =
  this_id :: jsvalue
  this_type :: Paylods
  this_route :: jsvalue
  this_traceback :: jsvalue
  this_data :: json
  this_uuid :: jsvalue
  this_destination :: jsvalue
  this_pseudo_object :: jsvalue

text \<open>The constructor: \<^verbatim>\<open>this.data = msg.data || {}\<close>, every other field copied.\<close>

definition new_MessagePayload :: "msg \<Rightarrow> MessagePayload" where
  "new_MessagePayload m =
     \<lparr>this_id = msg_id m,
      this_type = msg_type m,
      this_route = msg_route m,
      this_traceback = msg_traceback m,
      this_data = or_else (msg_data m) (JObj []),
      this_uuid = msg_uuid m,
      this_destination = msg_destination m,
      this_pseudo_object = msg_pseudo_object m\<rparr>"

definition toString :: "MessagePayload \<Rightarrow> json" where
  "toString this =
     JSON_stringify
       [(''id'', this_id this),
        (''type'', Some (JNum (code (this_type this)))),
        (''route'', this_route this),
        (''data'', Some (this_data this)),
        (''traceback'', this_traceback this),
        (''uuid'', this_uuid this),
        (''destination'', this_destination this),
        (''pseudo_object'', this_pseudo_object this)]"

section \<open>The client (client.ts)\<close>

text \<open>
  The class \<^verbatim>\<open>Client\<close> of \<^verbatim>\<open>src/src/client.ts\<close>. The repository holds two more
  copies of it: one keeps the socket in a static field and adds a flag
  \<^verbatim>\<open>is_connected\<close> that is set when the socket opens, with \<^verbatim>\<open>handleMessage\<close>,
  \<^verbatim>\<open>handleDisconnect\<close>, \<^verbatim>\<open>inform\<close> and \<^verbatim>\<open>request\<close> word for word the same; the
  other is an older one whose \<^verbatim>\<open>inform\<close> and \<^verbatim>\<open>request\<close> have no guards.
\<close>

text \<open>
  What the promise returned by a route handler does: it is fulfilled with a value,
  rejected with an instance of \<^verbatim>\<open>Error\<close> (of which only the message is read) or with
  some other value, or it never settles. A handler that is not an async function can
  also throw before it returns a promise.
\<close>

datatype rejection = ErrorInstance string | OtherValue

datatype settlement =
    Fulfilled json
  | Rejected rejection
  | Unsettled
  | Threw rejection

type_synonym RouteHandler = "jsvalue \<Rightarrow> settlement"

text \<open>
  Exceptions that leave a method of the client. \<open>Error m\<close> is \<^verbatim>\<open>new Error(m)\<close>; the
  guards of \<^verbatim>\<open>inform\<close> and \<^verbatim>\<open>request\<close> throw the two named below.
\<close>

datatype exn = Error string | SyntaxError | TypeError | HandlerThrew rejection

definition NotAuthorized :: exn where
  "NotAuthorized = Error ''The client is not authorized.''"

definition OnHold :: exn where
  "OnHold = Error ''The client is on hold''"

text \<open>
  One call of \<^verbatim>\<open>request\<close> that got past the guards: its \<^verbatim>\<open>uuid\<close>, whether its
  listener \<^verbatim>\<open>respond\<close> is registered on the socket, the milliseconds left on its timer
  \<^verbatim>\<open>_timeout\<close> while that is armed (a delay may be a fraction), and the arguments of
  the calls of \<^verbatim>\<open>resolve\<close> made so far, oldest first.
\<close>

record PendingRequest =
  uuid :: string
  listening :: bool
  timer :: "rat option"
  resolved :: "jsvalue list"

text \<open>
  The client object together with what it has done to its collaborators: \<open>sent\<close> are
  the frames handed to \<^verbatim>\<open>this.client.send\<close>, oldest first; \<open>pending\<close> are the calls of
  \<^verbatim>\<open>request\<close> in the order made; \<open>invoked\<close> are the calls of route handlers, by route
  name and argument. The socket is an abstract channel: \<^verbatim>\<open>send\<close> always accepts.
\<close>

record Client =
  routes :: "string \<rightharpoonup> RouteHandler"
  authorized :: bool
  on_hold :: bool
  local_name :: string
  sent :: "json list"
  pending :: "PendingRequest list"
  invoked :: "(string \<times> jsvalue) list"

record ClientProps =
  host :: string
  port :: string
  props_local_name :: string

definition new_Client :: "ClientProps \<Rightarrow> Client" where
  "new_Client props =
     \<lparr>routes = Map.empty, authorized = False, on_hold = False,
      local_name = props_local_name props, sent = [], pending = [], invoked = []\<rparr>"

definition send :: "Client \<Rightarrow> json \<Rightarrow> Client" where
  "send this frame = this\<lparr>sent := sent this @ [frame]\<rparr>"

text \<open>\<^verbatim>\<open>__verify\<close> and \<^verbatim>\<open>handleConnect\<close>; the argument is what \<^verbatim>\<open>uuid4()\<close> returns.\<close>

definition verify :: "Client \<Rightarrow> string \<Rightarrow> Client" where
  "verify this uuid4 =
     send this
       (JSON_stringify
          [(''id'', Some (JStr (local_name this))),
           (''uuid'', Some (JStr uuid4)),
           (''type'', Some (JNum (code Paylods.verification)))])"

definition handleConnect :: "Client \<Rightarrow> string \<Rightarrow> Client" where
  "handleConnect this uuid4 = verify this uuid4"

text \<open>\<^verbatim>\<open>handleDisconnect\<close> writes to the console and does nothing else.\<close>

definition handleDisconnect :: "Client \<Rightarrow> Client" where
  "handleDisconnect this = this"

text \<open>
  \<^verbatim>\<open>this.routes.get(data.route)\<close>: the keys of the table are strings, so a route that is
  not a string finds nothing.
\<close>

fun routes_get :: "Client \<Rightarrow> jsvalue \<Rightarrow> (string \<times> RouteHandler) option" where
  "routes_get this (Some (JStr name)) = map_option (Pair name) (routes this name)"
| "routes_get this _ = None"

text \<open>The two callbacks \<^verbatim>\<open>handleMessage\<close> hangs on the handler's promise.\<close>

definition on_fulfilled :: "Client \<Rightarrow> json \<Rightarrow> Client" where
  "on_fulfilled this res =
     (let payload = new_MessagePayload
            ((only_type Paylods.response)
               \<lparr>msg_id := Some (JStr (local_name this)), msg_data := Some res\<rparr>)
      in send this (toString payload))"

definition on_rejected :: "Client \<Rightarrow> rejection \<Rightarrow> Client" where
  "on_rejected this err =
     (let error_message =
            (case err of ErrorInstance message \<Rightarrow> message
                       | OtherValue \<Rightarrow> ''Internal Server Error'')
      in send this
           (toString (new_MessagePayload
              ((only_type Paylods.error)
                 \<lparr>msg_id := Some (JStr (local_name this)),
                  msg_data := Some (JStr error_message)\<rparr>))))"

text \<open>
  \<^verbatim>\<open>handleMessage\<close>. The result is the exception that left it, if any, and the client
  as it then is. The callbacks on the handler's promise run when it settles, after
  \<^verbatim>\<open>handleMessage\<close> has returned; they touch nothing but the socket, and the model runs
  them at once.
\<close>

definition handleMessage :: "Client \<Rightarrow> MessageEvent \<Rightarrow> exn option \<times> Client" where
  "handleMessage this event =
     (case event of
        None \<Rightarrow> (Some SyntaxError, this)
      | Some JNull \<Rightarrow> (Some TypeError, this)
      | Some data \<Rightarrow>
          (let this1 =
                 (if field data ''type'' = Some (JNum (code Paylods.success))
                  then this\<lparr>authorized := True, on_hold := False\<rparr> else this);
               this2 =
                 (if field data ''type'' = Some (JNum (code Paylods.error))
                     \<and> field data ''data'' = Some (JStr ''Already authorized.'')
                  then this1\<lparr>on_hold := True\<rparr> else this1)
           in if field data ''type'' = Some (JNum (code Paylods.request)) then
                (case routes_get this2 (field data ''route'') of
                   None \<Rightarrow>
                     (let payload = new_MessagePayload
                            ((only_type Paylods.error)
                               \<lparr>msg_id := Some (JStr (local_name this2)),
                                msg_data := Some (JStr ''Route not found''),
                                msg_traceback := Some (JStr ''Route not found''),
                                msg_destination := field data ''id'',
                                msg_uuid := field data ''uuid''\<rparr>)
                      in (None, send this2 (toString payload)))
                 | Some (name, route) \<Rightarrow>
                     (let this3 =
                            this2\<lparr>invoked := invoked this2 @ [(name, field data ''data'')]\<rparr>
                      in case route (field data ''data'') of
                           Fulfilled res \<Rightarrow> (None, on_fulfilled this3 res)
                         | Rejected err \<Rightarrow> (None, on_rejected this3 err)
                         | Unsettled \<Rightarrow> (None, this3)
                         | Threw err \<Rightarrow> (Some (HandlerThrew err), this3)))
              else (None, this2)))"

text \<open>\<^verbatim>\<open>route\<close>: registers a handler under a name, replacing an earlier one.\<close>

definition route :: "Client \<Rightarrow> string \<Rightarrow> RouteHandler \<Rightarrow> Client" where
  "route this name handler = this\<lparr>routes := (routes this)(name \<mapsto> handler)\<rparr>"

record InformPayload =
  inform_route :: string
  destinations :: json
  inform_data :: json

text \<open>\<^verbatim>\<open>inform\<close>: the two guards, then one Information frame.\<close>

definition inform :: "Client \<Rightarrow> InformPayload \<Rightarrow> exn option \<times> Client" where
  "inform this p =
     (if \<not> authorized this then (Some NotAuthorized, this)
      else if on_hold this then (Some OnHold, this)
      else (None,
        send this
          (toString (new_MessagePayload
             ((only_type Paylods.information)
                \<lparr>msg_route :=
                   Some (case destinations p of JArr ds \<Rightarrow> JArr ds | d \<Rightarrow> JArr [d]),
                 msg_data := Some (inform_data p)\<rparr>)))))"

text \<open>
  The argument of \<^verbatim>\<open>request\<close>. \<open>timeout\<close> may be left out; it counts seconds and
  is a JavaScript number, here a rational (it may be negative or a fraction; the
  rounding of floating point, \<^verbatim>\<open>NaN\<close> and the infinities are left out).
\<close>

record RequestProps =
  request_route :: string
  destination :: string
  request_data :: json
  timeout :: "rat option"

text \<open>
  The delay the host's \<^verbatim>\<open>setTimeout\<close> arms a timer with, in milliseconds: the delay
  it is given when that lies between 1 and \<open>2\<^sup>3\<^sup>1 - 1\<close>, and 1 otherwise.
\<close>

definition setTimeout_delay :: "rat \<Rightarrow> rat" where
  "setTimeout_delay delay = (if 1 \<le> delay \<and> delay \<le> 2147483647 then delay else 1)"

text \<open>
  \<^verbatim>\<open>request\<close>: the two guards; then, inside the promise, the Request frame is sent, the
  listener \<^verbatim>\<open>respond\<close> is registered and \<^verbatim>\<open>setTimeout\<close> is called with
  \<^verbatim>\<open>timeout * 1000\<close> milliseconds, \<^verbatim>\<open>timeout\<close> being 60 when left out. The last
  argument is what \<^verbatim>\<open>uuid4()\<close> returns.
\<close>

definition request :: "Client \<Rightarrow> RequestProps \<Rightarrow> string \<Rightarrow> exn option \<times> Client" where
  "request this props uuid4 =
     (if \<not> authorized this then (Some NotAuthorized, this)
      else if on_hold this then (Some OnHold, this)
      else
        (let seconds = (case timeout props of None \<Rightarrow> 60 | Some t \<Rightarrow> t);
             payload = new_MessagePayload
               ((only_type Paylods.request)
                  \<lparr>msg_id := Some (JStr (local_name this)),
                   msg_destination := Some (JStr (destination props)),
                   msg_route := Some (JStr (request_route props)),
                   msg_data := Some (request_data props),
                   msg_uuid := Some (JStr uuid4)\<rparr>);
             this1 = send this (toString payload)
         in (None,
             this1\<lparr>pending := pending this1 @
               [\<lparr>uuid = uuid4, listening = True, timer = Some (setTimeout_delay (seconds * 1000)),
                 resolved = []\<rparr>]\<rparr>)))"


text \<open>
  The listener \<^verbatim>\<open>respond\<close> of one pending request, and the callback of its timer.
  Both deregister the listener and call \<^verbatim>\<open>resolve\<close>; \<^verbatim>\<open>respond\<close> also clears the
  timer, and a timer that has fired is spent.
\<close>

definition respond :: "PendingRequest \<Rightarrow> MessageEvent \<Rightarrow> exn option \<times> PendingRequest" where
  "respond p event =
     (case event of
        None \<Rightarrow> (Some SyntaxError, p)
      | Some JNull \<Rightarrow> (Some TypeError, p)
      | Some data \<Rightarrow>
          (None,
           if field data ''uuid'' = Some (JStr (uuid p)) then
             (if field data ''type'' = Some (JNum (code Paylods.response)) then
                p\<lparr>listening := False, timer := None,
                  resolved := resolved p @ [field data ''data'']\<rparr>
              else if field data ''type'' = Some (JNum (code Paylods.error)) then
                p\<lparr>listening := False, timer := None,
                  resolved := resolved p @ [Some JNull]\<rparr>
              else p)
           else p))"

definition on_timeout :: "PendingRequest \<Rightarrow> PendingRequest" where
  "on_timeout p =
     p\<lparr>listening := False, timer := None, resolved := resolved p @ [Some JNull]\<rparr>"

section \<open>The event loop\<close>

text \<open>
  A message event goes to the listeners in the order they were registered:
  \<^verbatim>\<open>handleMessage\<close> first (the constructor registers it), then the \<^verbatim>\<open>respond\<close> of each
  request that is still listening. An exception that leaves a listener ends the
  delivery: the listeners after it are not called.
\<close>

fun emit_respond :: "PendingRequest list \<Rightarrow> MessageEvent \<Rightarrow> exn option \<times> PendingRequest list" where
  "emit_respond [] event = (None, [])"
| "emit_respond (p # ps) event =
     (if listening p then
        (case respond p event of
           (Some e, p') \<Rightarrow> (Some e, p' # ps)
         | (None, p') \<Rightarrow>
             (case emit_respond ps event of (e, ps') \<Rightarrow> (e, p' # ps')))
      else (case emit_respond ps event of (e, ps') \<Rightarrow> (e, p # ps')))"

definition emit_message :: "Client \<Rightarrow> MessageEvent \<Rightarrow> exn option \<times> Client" where
  "emit_message this event =
     (case handleMessage this event of
        (Some e, this') \<Rightarrow> (Some e, this')
      | (None, this') \<Rightarrow>
          (case emit_respond (pending this') event of
             (e, ps) \<Rightarrow> (e, this'\<lparr>pending := ps\<rparr>)))"

text \<open>
  Time passing, in whole milliseconds of the host's clock: every armed timer loses the
  milliseconds gone by, and one that has none left fires.
\<close>

definition elapse_timer :: "nat \<Rightarrow> PendingRequest \<Rightarrow> PendingRequest" where
  "elapse_timer ms p =
     (case timer p of
        None \<Rightarrow> p
      | Some left \<Rightarrow>
          if left \<le> of_nat ms then on_timeout p
          else p\<lparr>timer := Some (left - of_nat ms)\<rparr>)"

definition elapse :: "Client \<Rightarrow> nat \<Rightarrow> Client" where
  "elapse this ms = this\<lparr>pending := map (elapse_timer ms) (pending this)\<rparr>"

text \<open>
  What can happen to a client: the three socket events, time passing, and the calls of
  its three public methods. \<open>step\<close> gives the exception that reached the caller or the
  host, if any, and the client afterwards; \<open>run\<close> goes on from there whatever the host
  did with the exception.
\<close>

datatype occurrence =
    Open string
  | Message MessageEvent
  | Close
  | Elapse nat
  | Call_route string RouteHandler
  | Call_inform InformPayload
  | Call_request RequestProps string

fun step :: "Client \<Rightarrow> occurrence \<Rightarrow> exn option \<times> Client" where
  "step this (Open uuid4) = (None, handleConnect this uuid4)"
| "step this (Message event) = emit_message this event"
| "step this Close = (None, handleDisconnect this)"
| "step this (Elapse ms) = (None, elapse this ms)"
| "step this (Call_route name handler) = (None, route this name handler)"
| "step this (Call_inform p) = inform this p"
| "step this (Call_request props uuid4) = request this props uuid4"

fun run :: "Client \<Rightarrow> occurrence list \<Rightarrow> Client" where
  "run this [] = this"
| "run this (e # es) = run (snd (step this e)) es"

section \<open>One pending request through the events\<close>

text \<open>
  What one occurrence does to one pending request, seen alone: a message reaches its
  listener while that is registered, time passing reaches its timer, and nothing else
  touches it. The lemmas below show that \<open>step\<close> does exactly this to every entry of
  \<open>pending\<close>.
\<close>

definition deliver :: "MessageEvent \<Rightarrow> PendingRequest \<Rightarrow> PendingRequest" where
  "deliver event p = (if listening p then snd (respond p event) else p)"





text \<open>An occurrence that authorizes the client: an inbound Success frame.\<close>

fun authorizes :: "occurrence \<Rightarrow> bool" where
  "authorizes (Message (Some data)) =
     (field data ''type'' = Some (JNum (code Paylods.success)))"
| "authorizes e = False"

section \<open>Scenarios\<close>

text \<open>Concrete clients and frames, used to run the theorems below on inputs.\<close>

definition c0 :: Client where
  "c0 = new_Client \<lparr>host = ''localhost'', port = ''2033'', props_local_name = ''A''\<rparr>"

definition success_frame :: json where
  "success_frame = JObj [(''type'', JNum 0)]"

definition already_authorized_frame :: json where
  "already_authorized_frame =
     JObj [(''type'', JNum 4), (''data'', JStr ''Already authorized.'')]"

definition unknown_request :: json where
  "unknown_request =
     JObj [(''id'', JStr ''B''), (''type'', JNum 2), (''route'', JStr ''unknown''),
           (''data'', JObj []), (''uuid'', JStr ''u1''), (''destination'', JStr ''A'')]"

definition ping_props :: RequestProps where
  "ping_props =
     \<lparr>request_route = ''ping'', destination = ''A'', request_data = JObj [],
      timeout = None\<rparr>"

definition sync_inform :: InformPayload where
  "sync_inform =
     \<lparr>inform_route = ''sync'', destinations = JArr [JStr ''bot''],
      inform_data = JObj [(''sync'', JBool True)]\<rparr>"

text \<open>A client that was authorized and then told its name is taken.\<close>

definition held :: Client where
  "held = run c0 [Open ''v1'', Message (Some success_frame),
                  Message (Some already_authorized_frame)]"

text \<open>An authorized client, and the same with two requests in flight.\<close>

definition authorized_client :: Client where
  "authorized_client = run c0 [Open ''v1'', Message (Some success_frame)]"

definition two_pending :: Client where
  "two_pending =
     run authorized_client
       [Call_request ping_props ''u-a'', Call_request ping_props ''u-b'']"

definition response_a :: json where
  "response_a =
     JObj [(''id'', JStr ''B''), (''type'', JNum 3),
           (''data'', JObj [(''pong'', JBool True)]), (''uuid'', JStr ''u-a'')]"

definition waiting_b :: PendingRequest where
  "waiting_b = \<lparr>uuid = ''u-b'', listening = True, timer = Some 60000, resolved = []\<rparr>"





text \<open>A client told that its name is taken before it was ever authorized.\<close>

definition never_authorized_held :: Client where
  "never_authorized_held = run c0 [Open ''v1'', Message (Some already_authorized_frame)]"

text \<open>A well-formed frame whose type is none of the eight.\<close>

definition unknown_type_frame :: json where
  "unknown_type_frame = JObj [(''type'', JNum 99), (''uuid'', JStr ''u-a'')]"

text \<open>
  The ping scenario: client A answers route "ping" with \<^verbatim>\<open>{"pong": true}\<close>, client B
  is authorized and has called \<^verbatim>\<open>request\<close> for that route with the default timeout.
  \<open>ping_frame\<close> is the frame B sends and \<open>pong_frame\<close> the frame A answers with.
\<close>

definition pong :: RouteHandler where
  "pong d = Fulfilled (JObj [(''pong'', JBool True)])"

definition server_a :: Client where
  "server_a = route authorized_client ''ping'' pong"

definition requester_b :: Client where
  "requester_b =
     run (new_Client \<lparr>host = ''localhost'', port = ''2033'', props_local_name = ''B''\<rparr>)
       [Open ''v2'', Message (Some success_frame), Call_request ping_props ''u-a'']"

definition ping_frame :: json where
  "ping_frame =
     JObj [(''id'', JStr ''B''), (''type'', JNum 2), (''route'', JStr ''ping''),
           (''data'', JObj []), (''uuid'', JStr ''u-a''), (''destination'', JStr ''A'')]"

definition pong_frame :: json where
  "pong_frame =
     JObj [(''id'', JStr ''A''), (''type'', JNum 3), (''data'', JObj [(''pong'', JBool True)])]"

text \<open>
  A handler whose promise is rejected with \<^verbatim>\<open>new Error()\<close>, whose message is the empty
  string, and a request for it.
\<close>

definition failing :: RouteHandler where
  "failing d = Rejected (ErrorInstance [])"

definition server_f :: Client where
  "server_f = route authorized_client ''fail'' failing"

definition fail_frame :: json where
  "fail_frame =
     JObj [(''id'', JStr ''B''), (''type'', JNum 2), (''route'', JStr ''fail''),
           (''data'', JObj []), (''uuid'', JStr ''u-a''), (''destination'', JStr ''A'')]"

text \<open>A Response payload whose \<^verbatim>\<open>data\<close> is the empty string.\<close>

definition empty_string_payload :: msg where
  "empty_string_payload =
     (only_type Paylods.response)\<lparr>msg_id := Some (JStr ''A''), msg_data := Some (JStr [])\<rparr>"

section \<open>Reading a sent frame\<close>

lemma field_toString:
  "field (toString p) k =
     (if k = ''pseudo_object'' then this_pseudo_object p
      else if k = ''destination'' then this_destination p
      else if k = ''uuid'' then this_uuid p
      else if k = ''traceback'' then this_traceback p
      else if k = ''data'' then Some (this_data p)
      else if k = ''route'' then this_route p
      else if k = ''type'' then Some (JNum (code (this_type p)))
      else if k = ''id'' then this_id p
      else None)"
  by (cases "this_id p"; cases "this_route p"; cases "this_traceback p"; cases "this_uuid p";
      cases "this_destination p"; cases "this_pseudo_object p")
     (simp_all add: toString_def JSON_stringify_def)

section \<open>The dispatcher: a request for a route that is not registered\<close>

text \<open>
  The lookup finds nothing exactly when the route of the frame is not a string, or is
  a string under which no handler is registered.
\<close>

lemma routes_get_None:
  "routes_get this r = None \<longleftrightarrow> (\<forall>name. r = Some (JStr name) \<longrightarrow> routes this name = None)"
  by (cases "(this, r)" rule: routes_get.cases) simp_all

lemma handleMessage_not_found:
  assumes "field data ''type'' = Some (JNum (code Paylods.request))"
      and "routes_get this (field data ''route'') = None"
  shows "handleMessage this (Some data) =
           (None, send this (toString (new_MessagePayload
              ((only_type Paylods.error)
                 \<lparr>msg_id := Some (JStr (local_name this)),
                  msg_data := Some (JStr ''Route not found''),
                  msg_traceback := Some (JStr ''Route not found''),
                  msg_destination := field data ''id'',
                  msg_uuid := field data ''uuid''\<rparr>))))"
proof -
  from assms(1) have "data \<noteq> JNull" by auto
  with assms show ?thesis
    by (cases data) (simp_all add: handleMessage_def Let_def)
qed

text \<open>
  Claim C6. A Request frame whose route is not in the route table makes
  \<^verbatim>\<open>handleMessage\<close> send exactly one frame, and do nothing else: no exception, no
  handler invoked, no other field of the client changed. The frame is an Error
  envelope whose \<^verbatim>\<open>data\<close> and \<^verbatim>\<open>traceback\<close> are "Route not found", whose
  \<^verbatim>\<open>destination\<close> is the \<^verbatim>\<open>id\<close> of the request and whose \<^verbatim>\<open>uuid\<close> is the \<^verbatim>\<open>uuid\<close> of
  the request.
\<close>

theorem route_not_found_error_envelope:
  assumes "field data ''type'' = Some (JNum (code Paylods.request))"
      and "routes_get this (field data ''route'') = None"
  shows "(let (thrown, this') = handleMessage this (Some data); out = last (sent this')
          in thrown = None
           \<and> this' = this\<lparr>sent := sent this @ [out]\<rparr>
           \<and> invoked this' = invoked this
           \<and> field out ''type'' = Some (JNum (code Paylods.error))
           \<and> field out ''data'' = Some (JStr ''Route not found'')
           \<and> field out ''traceback'' = Some (JStr ''Route not found'')
           \<and> field out ''destination'' = field data ''id''
           \<and> field out ''uuid'' = field data ''uuid'')"
  by (simp add: handleMessage_not_found[OF assms] send_def field_toString
        new_MessagePayload_def only_type_def)

theorem route_not_found_error_envelope_witness:
  "(let (thrown, this') = handleMessage c0 (Some unknown_request); out = last (sent this')
    in thrown = None
     \<and> this' = c0\<lparr>sent := sent c0 @ [out]\<rparr>
     \<and> invoked this' = invoked c0
     \<and> field out ''type'' = Some (JNum (code Paylods.error))
     \<and> field out ''data'' = Some (JStr ''Route not found'')
     \<and> field out ''traceback'' = Some (JStr ''Route not found'')
     \<and> field out ''destination'' = Some (JStr ''B'')
     \<and> field out ''uuid'' = Some (JStr ''u1''))"
  using route_not_found_error_envelope[of unknown_request c0]
  by (simp add: c0_def new_Client_def unknown_request_def)

section \<open>The authorization flags and the guards\<close>

lemma handleMessage_success:
  "field data ''type'' = Some (JNum (code Paylods.success)) \<Longrightarrow>
     handleMessage this (Some data) = (None, this\<lparr>authorized := True, on_hold := False\<rparr>)"
  by (cases data) (simp_all add: handleMessage_def Let_def)

lemma handleMessage_already_authorized:
  "field data ''type'' = Some (JNum (code Paylods.error)) \<Longrightarrow>
   field data ''data'' = Some (JStr ''Already authorized.'') \<Longrightarrow>
     handleMessage this (Some data) = (None, this\<lparr>on_hold := True\<rparr>)"
  by (cases data) (simp_all add: handleMessage_def Let_def)

lemma held_eq:
  "held = c0\<lparr>authorized := True, on_hold := True,
     sent := [JObj [(''id'', JStr ''A''), (''uuid'', JStr ''v1''), (''type'', JNum 1)]]\<rparr>"
  by (simp add: held_def c0_def new_Client_def handleConnect_def verify_def send_def
        JSON_stringify_def emit_message_def handleMessage_success
        handleMessage_already_authorized success_frame_def already_authorized_frame_def)

lemma never_authorized_held_eq:
  "never_authorized_held = c0\<lparr>on_hold := True,
     sent := [JObj [(''id'', JStr ''A''), (''uuid'', JStr ''v1''), (''type'', JNum 1)]]\<rparr>"
  by (simp add: never_authorized_held_def c0_def new_Client_def handleConnect_def verify_def
        send_def JSON_stringify_def emit_message_def handleMessage_already_authorized
        already_authorized_frame_def)

text \<open>
  Claim C3 says that a call made while \<open>on_hold\<close> is true fails with OnHold. A client
  whose name was taken when it connected is on hold without ever having been
  authorized, and its calls of \<^verbatim>\<open>request\<close> and \<^verbatim>\<open>inform\<close> fail with NotAuthorized:
  the guard on \<open>authorized\<close> is the first of the two.
\<close>

theorem on_hold_but_never_authorized:
  "on_hold never_authorized_held
   \<and> request never_authorized_held ping_props ''u1''
       = (Some NotAuthorized, never_authorized_held)
   \<and> inform never_authorized_held sync_inform = (Some NotAuthorized, never_authorized_held)
   \<and> NotAuthorized \<noteq> OnHold"
  by (simp add: never_authorized_held_eq c0_def new_Client_def request_def inform_def
        NotAuthorized_def OnHold_def)

text \<open>
  Claim C3, amended. A call of \<^verbatim>\<open>request\<close> or \<^verbatim>\<open>inform\<close> made while \<open>authorized\<close> is
  false throws NotAuthorized and leaves the client as it was: no frame is built,
  nothing is handed to the socket, no listener or timer is set. Likewise a call made
  while \<open>on_hold\<close> is true throws before anything is built or sent and leaves the client
  as it was; what it throws is OnHold when the client is authorized, and NotAuthorized
  when it is not.
\<close>

theorem guards_come_before_send:
  "(\<not> authorized this \<longrightarrow>
      request this props uuid4 = (Some NotAuthorized, this)
    \<and> inform this p = (Some NotAuthorized, this))
   \<and> (on_hold this \<longrightarrow>
      request this props uuid4
        = (Some (if authorized this then OnHold else NotAuthorized), this)
    \<and> inform this p
        = (Some (if authorized this then OnHold else NotAuthorized), this))"
  by (simp add: request_def inform_def)

theorem guards_come_before_send_witness:
  "request c0 ping_props ''u1'' = (Some NotAuthorized, c0)
   \<and> inform c0 sync_inform = (Some NotAuthorized, c0)
   \<and> request held ping_props ''u1'' = (Some OnHold, held)
   \<and> inform held sync_inform = (Some OnHold, held)
   \<and> sent (snd (request held ping_props ''u1'')) = sent held
   \<and> request never_authorized_held ping_props ''u1''
       = (Some NotAuthorized, never_authorized_held)
   \<and> inform never_authorized_held sync_inform = (Some NotAuthorized, never_authorized_held)"
proof -
  have a: "\<not> authorized c0" "authorized held" "on_hold held"
      "\<not> authorized never_authorized_held" "on_hold never_authorized_held"
    by (simp_all add: held_eq never_authorized_held_eq) (simp_all add: c0_def new_Client_def)
  from a guards_come_before_send[of c0 ping_props "''u1''" sync_inform]
  have 1: "request c0 ping_props ''u1'' = (Some NotAuthorized, c0)"
      "inform c0 sync_inform = (Some NotAuthorized, c0)"
    by simp_all
  from a guards_come_before_send[of held ping_props "''u1''" sync_inform]
  have 2: "request held ping_props ''u1'' = (Some OnHold, held)"
      "inform held sync_inform = (Some OnHold, held)"
    by simp_all
  from a guards_come_before_send[of never_authorized_held ping_props "''u1''" sync_inform]
  have 3: "request never_authorized_held ping_props ''u1''
       = (Some NotAuthorized, never_authorized_held)"
      "inform never_authorized_held sync_inform = (Some NotAuthorized, never_authorized_held)"
    by simp_all
  from 1 2 3 show ?thesis by simp
qed

section \<open>Pending requests: what each occurrence does to them\<close>


lemma respond_returns:
  "data \<noteq> JNull \<Longrightarrow> fst (respond p (Some data)) = None"
  by (cases data) (simp_all add: respond_def)

lemma emit_respond_returns:
  "data \<noteq> JNull \<Longrightarrow>
     emit_respond ps (Some data) = (None, map (deliver (Some data)) ps)"
proof (induction ps)
  case Nil
  then show ?case by simp
next
  case (Cons p ps)
  then show ?case
    using respond_returns[of data p]
    by (cases "respond p (Some data)") (simp add: deliver_def)
qed









section \<open>Correlation by uuid\<close>

lemma handleMessage_response:
  "field data ''type'' = Some (JNum (code Paylods.response)) \<Longrightarrow>
     handleMessage this (Some data) = (None, this)"
  by (cases data) (simp_all add: handleMessage_def Let_def)

lemma deliver_response:
  assumes "field data ''uuid'' = Some (JStr A)"
      and "field data ''type'' = Some (JNum (code Paylods.response))"
  shows "deliver (Some data) p =
           (if listening p \<and> uuid p = A
            then p\<lparr>listening := False, timer := None,
                   resolved := resolved p @ [field data ''data'']\<rparr>
            else p)"
  using assms by (cases data) (simp_all add: deliver_def respond_def)

text \<open>
  Claim C4. An inbound Response frame whose \<^verbatim>\<open>uuid\<close> is \<open>A\<close> is delivered without an
  exception and changes nothing in the client but the pending requests: each request
  that is still listening and whose correlation id is \<open>A\<close> deregisters its listener,
  clears its timer and resolves with the \<^verbatim>\<open>data\<close> of the frame; every other pending
  request, so every request with a correlation id \<open>B\<close> other than \<open>A\<close>, is left exactly
  as it was. And the listener of a pending request does nothing on a frame whose
  \<^verbatim>\<open>uuid\<close> is not its own correlation id.
\<close>

theorem response_resolves_only_its_request:
  "(field data ''uuid'' = Some (JStr A)
      \<and> field data ''type'' = Some (JNum (code Paylods.response)) \<longrightarrow>
    emit_message this (Some data) =
      (None,
       this\<lparr>pending :=
         map (\<lambda>p. if listening p \<and> uuid p = A
                   then p\<lparr>listening := False, timer := None,
                          resolved := resolved p @ [field data ''data'']\<rparr>
                   else p)
             (pending this)\<rparr>))
   \<and> (field data' ''uuid'' \<noteq> Some (JStr (uuid p)) \<longrightarrow> snd (respond p (Some data')) = p)"
proof (intro conjI impI)
  assume a: "field data ''uuid'' = Some (JStr A)
      \<and> field data ''type'' = Some (JNum (code Paylods.response))"
  then have nn: "data \<noteq> JNull" by auto
  have "map (deliver (Some data)) (pending this) =
        map (\<lambda>p. if listening p \<and> uuid p = A
                   then p\<lparr>listening := False, timer := None,
                          resolved := resolved p @ [field data ''data'']\<rparr>
                   else p) (pending this)"
    using a by (simp add: deliver_response)
  then show "emit_message this (Some data) =
      (None,
       this\<lparr>pending :=
         map (\<lambda>p. if listening p \<and> uuid p = A
                   then p\<lparr>listening := False, timer := None,
                          resolved := resolved p @ [field data ''data'']\<rparr>
                   else p)
             (pending this)\<rparr>)"
    using a nn by (simp add: emit_message_def handleMessage_response emit_respond_returns)
next
  assume "field data' ''uuid'' \<noteq> Some (JStr (uuid p))"
  then show "snd (respond p (Some data')) = p"
    by (cases data') (simp_all add: respond_def)
qed

lemma authorized_client_eq:
  "authorized_client = c0\<lparr>authorized := True,
     sent := [JObj [(''id'', JStr ''A''), (''uuid'', JStr ''v1''), (''type'', JNum 1)]]\<rparr>"
  by (simp add: authorized_client_def c0_def new_Client_def handleConnect_def verify_def
        send_def JSON_stringify_def emit_message_def handleMessage_success success_frame_def)

lemma pending_two_pending:
  "pending two_pending =
     [\<lparr>uuid = ''u-a'', listening = True, timer = Some 60000, resolved = []\<rparr>, waiting_b]"
  by (simp add: two_pending_def authorized_client_eq c0_def new_Client_def request_def
        send_def Let_def ping_props_def waiting_b_def setTimeout_delay_def)

theorem response_resolves_only_its_request_witness:
  "emit_message two_pending (Some response_a) =
     (None,
      two_pending\<lparr>pending :=
        [\<lparr>uuid = ''u-a'', listening = False, timer = None,
          resolved = [Some (JObj [(''pong'', JBool True)])]\<rparr>,
         waiting_b]\<rparr>)
   \<and> snd (respond waiting_b (Some response_a)) = waiting_b"
  using response_resolves_only_its_request
          [of response_a "''u-a''" two_pending response_a waiting_b]
  by (simp add: pending_two_pending) (simp add: response_a_def waiting_b_def)

section \<open>Resolution of a request: once, by whichever comes first\<close>



















section \<open>Transport close\<close>

text \<open>
  Claim C7 says that a close event resets the client, so that \<open>authorized\<close> is false
  afterwards and no Request or Information frame may go out. It does not:
  \<^verbatim>\<open>handleDisconnect\<close> only writes to the console. An authorized client is still
  authorized after a close, and its \<^verbatim>\<open>request\<close> passes the guards and hands a frame to
  the socket.
\<close>

theorem close_leaves_client_authorized:
  "authorized (snd (step authorized_client Close))
   \<and> fst (request (snd (step authorized_client Close)) ping_props ''u-a'') = None
   \<and> length (sent (snd (request (snd (step authorized_client Close)) ping_props ''u-a'')))
       = Suc (length (sent authorized_client))"
  by (simp add: handleDisconnect_def authorized_client_eq request_def send_def Let_def
        c0_def new_Client_def)

text \<open>
  Claim C7, amended. A close event changes nothing in the client: the flags, the route
  table, the pending requests and the frames sent are as before, and a run goes on as
  if the close had not happened. So a client that is authorized and not on hold still
  passes the guards of \<^verbatim>\<open>request\<close> and \<^verbatim>\<open>inform\<close> after a close, and each call hands
  one frame to the socket. Nothing reconnects.
\<close>

theorem close_only_logs:
  "step this Close = (None, this)
   \<and> (\<forall>es. run this (Close # es) = run this es)
   \<and> (authorized this \<and> \<not> on_hold this \<longrightarrow>
        fst (request (snd (step this Close)) props uuid4) = None
      \<and> length (sent (snd (request (snd (step this Close)) props uuid4)))
          = Suc (length (sent this))
      \<and> fst (inform (snd (step this Close)) p) = None
      \<and> length (sent (snd (inform (snd (step this Close)) p))) = Suc (length (sent this)))"
  by (simp add: handleDisconnect_def request_def inform_def send_def Let_def)

theorem close_only_logs_witness:
  "step authorized_client Close = (None, authorized_client)
   \<and> fst (request (snd (step authorized_client Close)) ping_props ''u-a'') = None
   \<and> length (sent (snd (request (snd (step authorized_client Close)) ping_props ''u-a''))) = 2"
proof -
  have "authorized authorized_client \<and> \<not> on_hold authorized_client"
    and "length (sent authorized_client) = 1"
    by (simp_all add: authorized_client_eq c0_def new_Client_def)
  with close_only_logs[of authorized_client ping_props "''u-a''" sync_inform]
  show ?thesis by (auto simp del: step.simps)
qed

section \<open>Frames that are not envelopes\<close>

text \<open>
  Claim C8 says that a frame that is not well-formed never makes the inbound handler
  throw. It does: the SyntaxError of \<^verbatim>\<open>JSON.parse\<close> leaves \<^verbatim>\<open>handleMessage\<close>, which
  has no handler for it.
\<close>

theorem unparseable_frame_throws:
  "fst (handleMessage c0 None) = Some SyntaxError
   \<and> fst (step c0 (Message None)) = Some SyntaxError"
  by (simp add: handleMessage_def emit_message_def)

lemma deliver_unknown_type:
  assumes "field data ''type'' \<noteq> Some (JNum (code Paylods.response))"
      and "field data ''type'' \<noteq> Some (JNum (code Paylods.error))"
  shows "deliver (Some data) p = p"
  using assms by (cases data) (simp_all add: deliver_def respond_def)

text \<open>
  Claim C8, amended. A frame that is not well-formed JSON makes \<^verbatim>\<open>handleMessage\<close>
  throw the SyntaxError of \<^verbatim>\<open>JSON.parse\<close>, and the frame \<^verbatim>\<open>null\<close> makes it throw the
  TypeError of reading \<^verbatim>\<open>data.type\<close>; in both cases the client is unchanged, nothing
  is sent, and the listeners of the pending requests are not called. A well-formed
  frame other than \<^verbatim>\<open>null\<close> whose type is none of the eight codes is ignored: no
  exception, no change of the client, nothing sent, no pending request touched.
\<close>

theorem malformed_frames:
  "handleMessage this None = (Some SyntaxError, this)
   \<and> handleMessage this (Some JNull) = (Some TypeError, this)
   \<and> emit_message this None = (Some SyntaxError, this)
   \<and> emit_message this (Some JNull) = (Some TypeError, this)
   \<and> (data \<noteq> JNull \<and> (\<forall>t. field data ''type'' \<noteq> Some (JNum (code t))) \<longrightarrow>
        handleMessage this (Some data) = (None, this)
      \<and> emit_message this (Some data) = (None, this))"
proof (intro conjI impI)
  assume a: "data \<noteq> JNull \<and> (\<forall>t. field data ''type'' \<noteq> Some (JNum (code t)))"
  then have t: "field data ''type'' \<noteq> Some (JNum (code Paylods.success))"
      "field data ''type'' \<noteq> Some (JNum (code Paylods.error))"
      "field data ''type'' \<noteq> Some (JNum (code Paylods.request))"
      "field data ''type'' \<noteq> Some (JNum (code Paylods.response))"
    by blast+
  from a t show h: "handleMessage this (Some data) = (None, this)"
    by (cases data) (simp_all add: handleMessage_def Let_def)
  have "map (deliver (Some data)) (pending this) = pending this"
    using t by (simp add: deliver_unknown_type map_idI)
  with a h show "emit_message this (Some data) = (None, this)"
    by (simp add: emit_message_def emit_respond_returns)
qed (simp_all add: handleMessage_def emit_message_def)

lemma code_range: "0 \<le> code t \<and> code t \<le> 7"
  by (cases t) simp_all

theorem malformed_frames_witness:
  "handleMessage two_pending (Some unknown_type_frame) = (None, two_pending)
   \<and> emit_message two_pending (Some unknown_type_frame) = (None, two_pending)"
proof -
  have "\<forall>t. field unknown_type_frame ''type'' \<noteq> Some (JNum (code t))"
  proof
    fix t
    show "field unknown_type_frame ''type'' \<noteq> Some (JNum (code t))"
      using code_range[of t] by (auto simp: unknown_type_frame_def)
  qed
  moreover have "unknown_type_frame \<noteq> JNull" by (simp add: unknown_type_frame_def)
  ultimately show ?thesis
    using malformed_frames[of two_pending unknown_type_frame] by blast
qed

section \<open>On hold\<close>

text \<open>
  Claim C9 says that after an Error frame "Already authorized." every call of
  \<^verbatim>\<open>inform\<close> and \<^verbatim>\<open>request\<close> fails with OnHold. A client that gets this frame before
  it was ever authorized (its name was taken when it connected) is on hold, but its
  calls fail with NotAuthorized: the guard on \<open>authorized\<close> comes first.
\<close>

theorem name_taken_before_authorization:
  "on_hold (snd (step c0 (Message (Some already_authorized_frame))))
   \<and> fst (request (snd (step c0 (Message (Some already_authorized_frame)))) ping_props ''u1'')
       = Some NotAuthorized
   \<and> fst (inform (snd (step c0 (Message (Some already_authorized_frame)))) sync_inform)
       = Some NotAuthorized
   \<and> NotAuthorized \<noteq> OnHold"
  by (simp add: emit_message_def handleMessage_already_authorized already_authorized_frame_def
        c0_def new_Client_def request_def inform_def NotAuthorized_def OnHold_def)

lemma flags_handleMessage:
  "authorized (snd (handleMessage this event)) = (authorized this \<or> authorizes (Message event))"
  "\<not> authorizes (Message event) \<Longrightarrow> on_hold this \<Longrightarrow> on_hold (snd (handleMessage this event))"
  by (auto simp: handleMessage_def Let_def send_def on_fulfilled_def on_rejected_def
      split: option.splits json.splits settlement.splits prod.splits)

lemma flags_emit_message:
  "authorized (snd (emit_message this event)) = authorized (snd (handleMessage this event))"
  "on_hold (snd (emit_message this event)) = on_hold (snd (handleMessage this event))"
  by (auto simp: emit_message_def split: prod.splits option.splits)

lemma flags_step:
  assumes "\<not> authorizes e" "on_hold this"
  shows "on_hold (snd (step this e)) \<and> authorized (snd (step this e)) = authorized this"
proof (cases e)
  case (Message event)
  with assms show ?thesis by (simp add: flags_emit_message flags_handleMessage)
next
  case (Call_request props uuid4)
  with assms show ?thesis by (simp add: request_def)
next
  case (Call_inform p)
  with assms show ?thesis by (simp add: inform_def)
qed (use assms in \<open>simp_all add: handleConnect_def verify_def send_def handleDisconnect_def
       route_def elapse_def\<close>)

lemma flags_run:
  assumes "\<not> list_ex authorizes es" "on_hold this"
  shows "on_hold (run this es) \<and> authorized (run this es) = authorized this"
  using assms
proof (induction es arbitrary: this)
  case Nil
  then show ?case by simp
next
  case (Cons e es)
  then have "on_hold (snd (step this e)) \<and> authorized (snd (step this e)) = authorized this"
    by (simp add: flags_step)
  with Cons show ?case by simp
qed

text \<open>
  Claim C9, amended. An Error frame whose \<^verbatim>\<open>data\<close> is "Already authorized." sets
  \<open>on_hold\<close> and changes nothing else. From a client that is on hold, through any run
  of occurrences without an inbound Success frame, \<open>on_hold\<close> stays true and every call
  of \<^verbatim>\<open>request\<close> and \<^verbatim>\<open>inform\<close> throws, leaving the client as it was: OnHold if the
  client had been authorized, NotAuthorized if it had not. An inbound Success frame
  sets \<open>authorized\<close> and clears \<open>on_hold\<close>.
\<close>

theorem on_hold_until_success:
  "(field data ''type'' = Some (JNum (code Paylods.error))
      \<and> field data ''data'' = Some (JStr ''Already authorized.'') \<longrightarrow>
    handleMessage this (Some data) = (None, this\<lparr>on_hold := True\<rparr>))
   \<and> (on_hold this \<and> \<not> list_ex authorizes es \<longrightarrow>
        on_hold (run this es)
      \<and> request (run this es) props uuid4
          = (Some (if authorized this then OnHold else NotAuthorized), run this es)
      \<and> inform (run this es) p
          = (Some (if authorized this then OnHold else NotAuthorized), run this es))
   \<and> (field data' ''type'' = Some (JNum (code Paylods.success)) \<longrightarrow>
        handleMessage this (Some data')
          = (None, this\<lparr>authorized := True, on_hold := False\<rparr>))"
proof (intro conjI impI)
  assume a: "on_hold this \<and> \<not> list_ex authorizes es"
  then have f: "on_hold (run this es)" "authorized (run this es) = authorized this"
    using flags_run[of es this] by simp_all
  from f show "on_hold (run this es)" by simp
  from f show "request (run this es) props uuid4
          = (Some (if authorized this then OnHold else NotAuthorized), run this es)"
    by (simp add: request_def)
  from f show "inform (run this es) p
          = (Some (if authorized this then OnHold else NotAuthorized), run this es)"
    by (simp add: inform_def)
qed (simp_all add: handleMessage_already_authorized handleMessage_success)

theorem on_hold_until_success_witness:
  "handleMessage authorized_client (Some already_authorized_frame)
     = (None, authorized_client\<lparr>on_hold := True\<rparr>)
   \<and> request (run held [Elapse 5, Message (Some unknown_request), Close]) ping_props ''u1''
       = (Some OnHold, run held [Elapse 5, Message (Some unknown_request), Close])
   \<and> inform (run held [Elapse 5, Message (Some unknown_request), Close]) sync_inform
       = (Some OnHold, run held [Elapse 5, Message (Some unknown_request), Close])
   \<and> handleMessage held (Some success_frame)
       = (None, held\<lparr>authorized := True, on_hold := False\<rparr>)"
proof -
  have 1: "field already_authorized_frame ''type'' = Some (JNum (code Paylods.error))
      \<and> field already_authorized_frame ''data'' = Some (JStr ''Already authorized.'')"
    by (simp add: already_authorized_frame_def)
  have 2: "on_hold held \<and> \<not> list_ex authorizes [Elapse 5, Message (Some unknown_request), Close]"
    by (simp add: held_eq unknown_request_def)
  have 3: "field success_frame ''type'' = Some (JNum (code Paylods.success))"
    by (simp add: success_frame_def)
  have 4: "authorized held" by (simp add: held_eq)
  from on_hold_until_success[where data = already_authorized_frame
      and this = authorized_client] 1
  have a: "handleMessage authorized_client (Some already_authorized_frame)
     = (None, authorized_client\<lparr>on_hold := True\<rparr>)" by blast
  from on_hold_until_success[where this = held
      and es = "[Elapse 5, Message (Some unknown_request), Close]"
      and props = ping_props and ?uuid4.0 = "''u1''" and p = sync_inform] 2 4
  have b: "request (run held [Elapse 5, Message (Some unknown_request), Close]) ping_props ''u1''
       = (Some OnHold, run held [Elapse 5, Message (Some unknown_request), Close])"
    and c: "inform (run held [Elapse 5, Message (Some unknown_request), Close]) sync_inform
       = (Some OnHold, run held [Elapse 5, Message (Some unknown_request), Close])"
    by presburger+
  from on_hold_until_success[where this = held and data' = success_frame] 3
  have d: "handleMessage held (Some success_frame)
       = (None, held\<lparr>authorized := True, on_hold := False\<rparr>)" by blast
  from a b c d show ?thesis by blast
qed

section \<open>The dispatcher: a request for a registered route\<close>

lemma requester_b_eq:
  "requester_b =
     \<lparr>routes = Map.empty, authorized = True, on_hold = False, local_name = ''B'',
      sent = [JObj [(''id'', JStr ''B''), (''uuid'', JStr ''v2''), (''type'', JNum 1)],
              ping_frame],
      pending = [\<lparr>uuid = ''u-a'', listening = True, timer = Some 60000, resolved = []\<rparr>],
      invoked = []\<rparr>"
  by (simp add: requester_b_def new_Client_def handleConnect_def verify_def send_def
        JSON_stringify_def emit_message_def handleMessage_success success_frame_def
        request_def Let_def ping_props_def toString_def new_MessagePayload_def only_type_def
        ping_frame_def setTimeout_delay_def)

lemma handleMessage_fulfilled:
  assumes "field data ''type'' = Some (JNum (code Paylods.request))"
      and "field data ''route'' = Some (JStr name)"
      and "routes this name = Some handler"
      and "handler (field data ''data'') = Fulfilled res"
  shows "handleMessage this (Some data) =
           (None,
            this\<lparr>invoked := invoked this @ [(name, field data ''data'')],
                 sent := sent this @
                   [JObj [(''id'', JStr (local_name this)), (''type'', JNum 3),
                          (''data'', or_else (Some res) (JObj []))]]\<rparr>)"
proof -
  from assms(1) have "data \<noteq> JNull" by auto
  with assms show ?thesis
    by (cases data)
       (simp_all add: handleMessage_def Let_def on_fulfilled_def send_def toString_def
          JSON_stringify_def new_MessagePayload_def only_type_def)
qed

lemma handleMessage_rejected:
  assumes "field data ''type'' = Some (JNum (code Paylods.request))"
      and "field data ''route'' = Some (JStr name)"
      and "routes this name = Some handler"
      and "handler (field data ''data'') = Rejected err"
  shows "handleMessage this (Some data) =
           (None,
            this\<lparr>invoked := invoked this @ [(name, field data ''data'')],
                 sent := sent this @
                   [JObj [(''id'', JStr (local_name this)), (''type'', JNum 4),
                          (''data'',
                           or_else
                             (Some (JStr (case err of ErrorInstance message \<Rightarrow> message
                                          | OtherValue \<Rightarrow> ''Internal Server Error'')))
                             (JObj []))]]\<rparr>)"
proof -
  from assms(1) have "data \<noteq> JNull" by auto
  with assms show ?thesis
    by (cases data)
       (simp_all add: handleMessage_def Let_def on_rejected_def send_def toString_def
          JSON_stringify_def new_MessagePayload_def only_type_def)
qed

text \<open>
  Claim C1 (the code does not do what the claim says). In the ping scenario the
  frame B sends reaches A, whose handler is fulfilled with \<^verbatim>\<open>{"pong": true}\<close>. A sends
  exactly one Response frame, and it carries the handler's value as \<^verbatim>\<open>data\<close>, but
  it has no \<^verbatim>\<open>uuid\<close> and no \<^verbatim>\<open>destination\<close>: the payload is built from \<^verbatim>\<open>id\<close>,
  \<^verbatim>\<open>type\<close> and \<^verbatim>\<open>data\<close> only, where the branch for a missing route echoes both. When
  that frame is delivered to B as it is, B's listener passes it by, the request stays
  pending, and after 60 seconds it resolves with \<^verbatim>\<open>null\<close>, not with the handler's
  value.
\<close>

theorem response_carries_no_uuid:
  "last (sent requester_b) = ping_frame
   \<and> handleMessage server_a (JSON_parse ping_frame) =
       (None,
        server_a\<lparr>invoked := [(''ping'', Some (JObj []))],
                 sent := sent server_a @ [pong_frame]\<rparr>)
   \<and> field pong_frame ''uuid'' = None
   \<and> field pong_frame ''destination'' = None
   \<and> emit_message requester_b (JSON_parse pong_frame) = (None, requester_b)
   \<and> resolved (pending (run requester_b [Message (JSON_parse pong_frame), Elapse 60000]) ! 0)
       = [Some JNull]"
proof -
  have s: "routes server_a ''ping'' = Some pong" "local_name server_a = ''A''"
      "invoked server_a = []"
    by (simp_all add: server_a_def route_def authorized_client_eq c0_def new_Client_def)
  have 1: "handleMessage server_a (JSON_parse ping_frame) =
       (None,
        server_a\<lparr>invoked := [(''ping'', Some (JObj []))],
                 sent := sent server_a @ [pong_frame]\<rparr>)"
    using handleMessage_fulfilled[of ping_frame "''ping''" server_a pong
        "JObj [(''pong'', JBool True)]"] s
    by (simp add: JSON_parse_def ping_frame_def pong_def pong_frame_def)
  have 2: "emit_message requester_b (JSON_parse pong_frame) = (None, requester_b)"
    by (simp add: JSON_parse_def emit_message_def handleMessage_response emit_respond_returns
          pong_frame_def requester_b_eq deliver_def respond_def)
  have 3: "resolved (pending (run requester_b [Message (JSON_parse pong_frame), Elapse 60000]) ! 0)
       = [Some JNull]"
    by (simp add: 2 elapse_def) (simp add: requester_b_eq elapse_timer_def on_timeout_def)
  from 1 2 3 show ?thesis
    by (simp add: requester_b_eq) (simp add: pong_frame_def)
qed

text \<open>
  Claim C10 (the code does not do what the claim says). A handler whose promise is
  rejected with an \<^verbatim>\<open>Error\<close> of empty message makes the client send one Error frame
  without \<^verbatim>\<open>uuid\<close> and \<^verbatim>\<open>destination\<close>, but the \<^verbatim>\<open>data\<close> of that frame is the
  empty object, not the message: the constructor's \<^verbatim>\<open>msg.data || {}\<close> takes the empty
  string for a missing value.
\<close>

theorem empty_error_message_becomes_object:
  "handleMessage server_f (Some fail_frame) =
     (None,
      server_f\<lparr>invoked := [(''fail'', Some (JObj []))],
               sent := sent server_f @
                 [JObj [(''id'', JStr ''A''), (''type'', JNum 4), (''data'', JObj [])]]\<rparr>)"
proof -
  have "routes server_f ''fail'' = Some failing" "local_name server_f = ''A''"
      "invoked server_f = []"
    by (simp_all add: server_f_def route_def authorized_client_eq c0_def new_Client_def)
  then show ?thesis
    using handleMessage_rejected[of fail_frame "''fail''" server_f failing "ErrorInstance []"]
    by (simp add: fail_frame_def failing_def)
qed

section \<open>Encoding a payload and reading it back\<close>

lemma payload_round_trip:
  assumes "JSON_parse (toString (new_MessagePayload m)) = Some j"
  shows "field j ''id'' = msg_id m"
    and "field j ''type'' = Some (JNum (code (msg_type m)))"
    and "field j ''route'' = msg_route m"
    and "field j ''data'' = Some (or_else (msg_data m) (JObj []))"
    and "field j ''uuid'' = msg_uuid m"
    and "field j ''destination'' = msg_destination m"
    and "field j ''traceback'' = msg_traceback m"
    and "field j ''pseudo_object'' = msg_pseudo_object m"
  using assms by (auto simp: JSON_parse_def field_toString new_MessagePayload_def)

lemma data_round_trip:
  assumes "JSON_parse (toString (new_MessagePayload m)) = Some j"
  shows "msg_data m = None \<Longrightarrow> field j ''data'' = Some (JObj [])"
    and "msg_data m = Some (JObj kvs) \<Longrightarrow> field j ''data'' = Some (JObj kvs)"
    and "msg_data m = Some (JStr s) \<Longrightarrow> s \<noteq> [] \<Longrightarrow> field j ''data'' = Some (JStr s)"
  using payload_round_trip(4)[OF assms] by simp_all

text \<open>
  Claim C2 (the code does not do what the claim says). Every field but \<^verbatim>\<open>data\<close> is
  read back as it was given, and \<^verbatim>\<open>data\<close> is read back as given when it is an object
  or a non-empty string, and as the empty object when it was absent (the two lemmas
  above). But a payload whose \<^verbatim>\<open>data\<close> is the empty string, which is present and a
  valid value of its type, is read back with the empty object as \<^verbatim>\<open>data\<close>.
\<close>

theorem empty_string_data_becomes_object:
  "msg_data empty_string_payload = Some (JStr [])
   \<and> JSON_parse (toString (new_MessagePayload empty_string_payload))
       = Some (JObj [(''id'', JStr ''A''), (''type'', JNum 3), (''data'', JObj [])])
   \<and> field (toString (new_MessagePayload empty_string_payload)) ''data'' = Some (JObj [])"
  by (simp add: empty_string_payload_def only_type_def JSON_parse_def toString_def
        JSON_stringify_def new_MessagePayload_def)

end
